theory Spec2Isabelle
  imports Complex_Main "HOL-Library.Word"
begin

section \<open>SWD protocol symbols\<close>

text \<open>The symbol kinds of \<^verbatim>\<open>SWDSymbol::stype\<close>, in the order of the enum.\<close>

datatype stype =
    TYPE_START
  | TYPE_LINERESET
  | TYPE_AP_NDP
  | TYPE_R_NW
  | TYPE_ADDRESS
  | TYPE_PARITY_OK
  | TYPE_PARITY_BAD
  | TYPE_STOP
  | TYPE_PARK
  | TYPE_TURNAROUND
  | TYPE_ACK
  | TYPE_DATA
  | TYPE_SWDTOJTAG
  | TYPE_JTAGTOSWD
  | TYPE_SWDTODORMANT
  | TYPE_LEAVEDORMANT
  | TYPE_ERROR

record SWDSymbol =
  m_stype :: stype
  m_data :: "32 word"

text \<open>\<^verbatim>\<open>SWDSymbol::operator==\<close>: both member comparisons, joined by \<^verbatim>\<open>&&\<close>.\<close>

definition SWDSymbol_eq :: "SWDSymbol \<Rightarrow> SWDSymbol \<Rightarrow> bool" where
  "SWDSymbol_eq a s \<longleftrightarrow> (m_stype a = m_stype s) \<and> (m_data a = m_data s)"


section \<open>Numbers, constants and checked reads\<close>

text \<open>
  The \<^verbatim>\<open>float\<close> fields and locals of the source are modelled as \<^typ>\<open>real\<close>:
  comparisons are the source's comparisons, arithmetic is exact (no rounding, no
  infinities, no NaN). A quotient by 0 is 0 in HOL and infinite or NaN in the source, so
  what is proved about a quotient is proved for a divisor that is not 0. The two library
  constants the source uses are given their
  C values: \<^verbatim>\<open>M_PI\<close> is the \<^verbatim>\<open>double\<close> nearest to the circle constant,
  \<^verbatim>\<open>FLT_EPSILON\<close> is \<open>2\<^sup>-\<^sup>2\<^sup>3\<close>.
\<close>

definition M_PI :: real where
  "M_PI = 884279719003555 / 281474976710656"

definition FLT_EPSILON :: real where
  "FLT_EPSILON = 1 / 8388608"

text \<open>\<^verbatim>\<open>size_t\<close> is 64 bits wide; subtraction and addition wrap.\<close>

definition size_sub :: "nat \<Rightarrow> nat \<Rightarrow> nat" where
  "size_sub a b = (if b \<le> a then a - b else a + 2 ^ 64 - b)"

definition size_add :: "nat \<Rightarrow> nat \<Rightarrow> nat" where
  "size_add a b = (a + b) mod 2 ^ 64"

datatype error = OutOfBounds | NullPointer

record SParameterPoint =
  m_frequency :: real
  m_amplitude :: real
  m_phase :: real

type_synonym SParameterVector = "SParameterPoint list"

text \<open>
  \<^verbatim>\<open>m_points[i]\<close> on a \<^verbatim>\<open>std::vector\<close>: defined for \<open>i < size\<close> only. A read
  outside the sequence is undefined behaviour in the source, an error value here.
\<close>

definition point_at :: "SParameterVector \<Rightarrow> nat \<Rightarrow> error + SParameterPoint" where
  "point_at m_points i = (if i < length m_points then Inr (m_points ! i) else Inl OutOfBounds)"


section \<open>SParameterVector\<close>

text \<open>\<^verbatim>\<open>SParameterVector::InterpolatePhase\<close>.\<close>

definition InterpolatePhase :: "real \<Rightarrow> real \<Rightarrow> real \<Rightarrow> real" where
  "InterpolatePhase phase_lo phase_hi fraction =
     (let wrap = \<bar>phase_lo - phase_hi\<bar> > M_PI;
          lo = (if wrap \<and> phase_lo < phase_hi then phase_lo + 2 * M_PI else phase_lo);
          hi = (if wrap \<and> \<not> phase_lo < phase_hi then phase_hi + 2 * M_PI else phase_hi);
          ret = lo + (hi - lo) * fraction
      in if ret > 2 * M_PI then ret - 2 * M_PI else ret)"

text \<open>
  The \<^verbatim>\<open>while(true)\<close> loop of \<^verbatim>\<open>InterpolatePoint\<close>, on the loop variables
  \<open>pos\<close>, \<open>last_lo\<close>, \<open>last_hi\<close>. Each round reads the pivot \<^verbatim>\<open>m_points[pos]\<close>
  first, then tests the exit condition. The result is \<open>None\<close> when the loop does not
  return. The two sums cannot exceed \<open>last_hi\<close> and \<open>pos\<close> when the differences do
  not wrap, so they are plain sums.
\<close>

partial_function (option) search_loop ::
  "SParameterVector \<Rightarrow> real \<Rightarrow> nat \<Rightarrow> nat \<Rightarrow> nat \<Rightarrow> (error + nat \<times> nat) option"
where
  "search_loop m_points frequency pos last_lo last_hi =
     (case point_at m_points pos of
        Inl e \<Rightarrow> Some (Inl e)
      | Inr pivot \<Rightarrow>
          if size_sub last_hi last_lo \<le> 1 then Some (Inr (last_lo, last_hi))
          else if m_frequency pivot > frequency then
            (let delta = size_sub pos last_lo
             in search_loop m_points frequency (last_lo + delta div 2) last_lo pos)
          else
            (let delta = size_sub last_hi pos
             in search_loop m_points frequency (size_sub last_hi (delta div 2)) pos last_hi))"

text \<open>The part of \<^verbatim>\<open>InterpolatePoint\<close> after the search: the position between the
  two points found, and the interpolated point.\<close>

definition interpolate_between ::
  "SParameterVector \<Rightarrow> real \<Rightarrow> nat \<Rightarrow> nat \<Rightarrow> error + SParameterPoint" where
  "interpolate_between m_points frequency last_lo last_hi =
     (case point_at m_points last_lo of
        Inl e \<Rightarrow> Inl e
      | Inr plo \<Rightarrow>
         (case point_at m_points last_hi of
            Inl e \<Rightarrow> Inl e
          | Inr phi \<Rightarrow>
             (let freq_lo = m_frequency plo;
                  freq_hi = m_frequency phi;
                  dfreq = freq_hi - freq_lo;
                  fraction = (if dfreq > FLT_EPSILON then (frequency - freq_lo) / dfreq else 0);
                  amp_lo = m_amplitude plo;
                  amp_hi = m_amplitude phi
              in Inr \<lparr>m_frequency = frequency,
                      m_amplitude = amp_lo + (amp_hi - amp_lo) * fraction,
                      m_phase = InterpolatePhase (m_phase plo) (m_phase phi) fraction\<rparr>)))"

text \<open>\<^verbatim>\<open>SParameterVector::InterpolatePoint\<close>. \<open>None\<close>: the search does not return.\<close>

definition InterpolatePoint :: "SParameterVector \<Rightarrow> real \<Rightarrow> (error + SParameterPoint) option" where
  "InterpolatePoint m_points frequency =
     (let len = length m_points;
          pos = len div 2;
          last_lo = 0;
          last_hi = size_sub len 1
      in case point_at m_points 0 of
           Inl e \<Rightarrow> Some (Inl e)
         | Inr p0 \<Rightarrow>
             if frequency < m_frequency p0 then
               Some (Inr \<lparr>m_frequency = frequency,
                          m_amplitude = m_amplitude p0,
                          m_phase = InterpolatePhase 0 (m_phase p0) (frequency / m_frequency p0)\<rparr>)
             else
               (case point_at m_points (size_sub len 1) of
                  Inl e \<Rightarrow> Some (Inl e)
                | Inr plast \<Rightarrow>
                    if frequency > m_frequency plast then
                      Some (Inr \<lparr>m_frequency = frequency, m_amplitude = 0, m_phase = 0\<rparr>)
                    else
                      (case search_loop m_points frequency pos last_lo last_hi of
                         None \<Rightarrow> None
                       | Some (Inl e) \<Rightarrow> Some (Inl e)
                       | Some (Inr (lo, hi)) \<Rightarrow> Some (interpolate_between m_points frequency lo hi))))"

text \<open>\<^verbatim>\<open>InterpolateMagnitude\<close> and \<^verbatim>\<open>InterpolateAngle\<close>: one field of the point.\<close>

definition InterpolateMagnitude :: "SParameterVector \<Rightarrow> real \<Rightarrow> (error + real) option" where
  "InterpolateMagnitude m_points frequency =
     map_option (map_sum id m_amplitude) (InterpolatePoint m_points frequency)"

definition InterpolateAngle :: "SParameterVector \<Rightarrow> real \<Rightarrow> (error + real) option" where
  "InterpolateAngle m_points frequency =
     map_option (map_sum id m_phase) (InterpolatePoint m_points frequency)"




text \<open>\<^verbatim>\<open>SParameterVector::GetGroupDelay\<close>; \<open>bin\<close> is a \<^verbatim>\<open>size_t\<close>.\<close>

definition GetGroupDelay :: "SParameterVector \<Rightarrow> nat \<Rightarrow> error + real" where
  "GetGroupDelay m_points bin =
     (if size_add bin 1 \<ge> length m_points then Inr 0
      else
        (case point_at m_points bin of
           Inl e \<Rightarrow> Inl e
         | Inr a \<Rightarrow>
            (case point_at m_points (size_add (size_add bin 1) 1) of
               Inl e \<Rightarrow> Inl e
             | Inr b \<Rightarrow>
                (let dfreq = (m_frequency b - m_frequency a) * 2 * M_PI
                 in Inr ((m_phase a - m_phase b) / dfreq)))))"


section \<open>SParameters\<close>

text \<open>
  The model maps a port pair \<^verbatim>\<open>SPair(d, s)\<close> to its vector. The source holds
  pointers to heap vectors; here the map holds the vectors themselves, so a vector
  that is overwritten is gone (in the source it is leaked).
\<close>

record SParameters =
  m_params :: "int \<times> int \<rightharpoonup> SParameterVector"
  m_nports :: int

text \<open>\<^verbatim>\<open>SParameters::Clear\<close>: every entry is removed; the port count stays.\<close>

definition Clear :: "SParameters \<Rightarrow> SParameters" where
  "Clear this = this\<lparr>m_params := Map.empty\<rparr>"

text \<open>\<^verbatim>\<open>SParameters::Allocate\<close>: the two nested \<^verbatim>\<open>for\<close> loops over \<open>1..nports\<close>,
  each round storing a new empty vector under \<open>(d, s)\<close>.\<close>

definition Allocate :: "int \<Rightarrow> SParameters \<Rightarrow> SParameters" where
  "Allocate nports this =
     this\<lparr>m_params :=
            fold (\<lambda>d m. fold (\<lambda>s m'. m'((d, s) \<mapsto> [])) [1..nports] m) [1..nports] (m_params this),
          m_nports := nports\<rparr>"

text \<open>
  Modelled from the spec: the declarations of \<^verbatim>\<open>ParameterFormat\<close>, \<^verbatim>\<open>FreqUnit\<close>
  and of the two subscript operators (\<^verbatim>\<open>SParameters::operator[]\<close> on a port pair,
  \<^verbatim>\<open>SParameterVector::operator[]\<close> and \<^verbatim>\<open>size\<close>) are in a header that is not
  among the sources. The enumerators are the ones \<^verbatim>\<open>SaveToFile\<close> names, with one
  more constructor for any other value of the enum; the subscript on the model looks the
  pair up in the mapping, the subscript on a vector reads \<^verbatim>\<open>m_points[i]\<close>.
\<close>

datatype ParameterFormat = FORMAT_MAG_ANGLE | FORMAT_OTHER nat

datatype FreqUnit = FREQ_HZ | FREQ_KHZ | FREQ_MHZ | FREQ_GHZ | FREQ_OTHER nat

definition params_at :: "SParameters \<Rightarrow> int \<times> int \<Rightarrow> error + SParameterVector" where
  "params_at this pair = (case m_params this pair of None \<Rightarrow> Inl NullPointer | Some v \<Rightarrow> Inr v)"

text \<open>
  What \<^verbatim>\<open>SaveToFile\<close> acts on: the files (each a list of lines, by path) and the log
  (the messages without their final newline).
  Whether \<^verbatim>\<open>fopen(path, "w")\<close> succeeds, and how \<^verbatim>\<open>%f\<close> prints a number, are
  parameters of the model (\<open>can_open\<close>, \<open>fmt_f\<close>).
\<close>

datatype log_entry = LogError string | LogWarning string

record world =
  files :: "string \<rightharpoonup> string list"
  log :: "log_entry list"

definition log_append :: "log_entry \<Rightarrow> world \<Rightarrow> world" where
  "log_append e w = w\<lparr>log := log w @ [e]\<rparr>"

text \<open>\<^verbatim>\<open>fprintf(fp, ...)\<close> of one line ending in a newline, on the file opened at \<open>path\<close>.\<close>

definition fprintf_line :: "string \<Rightarrow> string \<Rightarrow> world \<Rightarrow> world" where
  "fprintf_line path line w =
     w\<lparr>files := (files w)(path \<mapsto> (case files w path of None \<Rightarrow> [] | Some ls \<Rightarrow> ls) @ [line])\<rparr>"

text \<open>The \<^verbatim>\<open>switch(freqUnit)\<close> of \<^verbatim>\<open>SaveToFile\<close>: unit text and scale factor.\<close>

fun freq_header :: "FreqUnit \<Rightarrow> string \<times> real" where
  "freq_header FREQ_HZ = (''Hz'', 1)"
| "freq_header FREQ_KHZ = (''kHz'', 1 / 1000)"
| "freq_header FREQ_MHZ = (''MHz'', 1 / 1000000)"
| "freq_header FREQ_GHZ = (''GHz'', 1 / 1000000000)"
| "freq_header (FREQ_OTHER v) = (''GHz'', 1 / 1000000000)"

text \<open>The format string \<^verbatim>\<open>"%f %f %f %f %f %f %f %f %f\n"\<close> applied to nine numbers.\<close>

definition format_row ::
  "(real \<Rightarrow> string) \<Rightarrow> real \<Rightarrow> real \<Rightarrow> real \<Rightarrow> real \<Rightarrow> real \<Rightarrow> real \<Rightarrow> real \<Rightarrow> real \<Rightarrow> real \<Rightarrow> string" where
  "format_row fmt_f v1 v2 v3 v4 v5 v6 v7 v8 v9 =
     fmt_f v1 @ '' '' @ fmt_f v2 @ '' '' @ fmt_f v3 @ '' '' @ fmt_f v4 @ '' '' @ fmt_f v5 @ '' '' @
     fmt_f v6 @ '' '' @ fmt_f v7 @ '' '' @ fmt_f v8 @ '' '' @ fmt_f v9"

text \<open>The row loop of \<^verbatim>\<open>SaveToFile\<close>, over \<open>i < s11.size()\<close>.\<close>

function write_rows ::
  "(real \<Rightarrow> string) \<Rightarrow> string \<Rightarrow> real \<Rightarrow> SParameterVector \<Rightarrow> SParameterVector \<Rightarrow>
   SParameterVector \<Rightarrow> SParameterVector \<Rightarrow> nat \<Rightarrow> world \<Rightarrow> error + world"
where
  "write_rows fmt_f path freqScale s11 s12 s21 s22 i w =
     (if i < length s11 then
        (case point_at s11 i of Inl e \<Rightarrow> Inl e | Inr p11 \<Rightarrow>
        (case point_at s21 i of Inl e \<Rightarrow> Inl e | Inr p21 \<Rightarrow>
        (case point_at s12 i of Inl e \<Rightarrow> Inl e | Inr p12 \<Rightarrow>
        (case point_at s22 i of Inl e \<Rightarrow> Inl e | Inr p22 \<Rightarrow>
           (let rad2deg = 180 / M_PI;
                freq = m_frequency p11;
                line = format_row fmt_f (freq * freqScale)
                         (m_amplitude p11) (m_phase p11 * rad2deg)
                         (m_amplitude p21) (m_phase p21 * rad2deg)
                         (m_amplitude p12) (m_phase p12 * rad2deg)
                         (m_amplitude p22) (m_phase p22 * rad2deg)
            in write_rows fmt_f path freqScale s11 s12 s21 s22 (i + 1)
                 (fprintf_line path line w))))))
      else Inr w)"
  by pat_completeness auto
termination
  by (relation "measure (\<lambda>(fmt_f, path, freqScale, s11, s12, s21, s22, i, w). length s11 - i)") auto

declare write_rows.simps [simp del]

text \<open>\<^verbatim>\<open>SParameters::SaveToFile\<close>.\<close>

definition SaveToFile ::
  "(string \<Rightarrow> bool) \<Rightarrow> (real \<Rightarrow> string) \<Rightarrow> SParameters \<Rightarrow> string \<Rightarrow> ParameterFormat \<Rightarrow>
   FreqUnit \<Rightarrow> world \<Rightarrow> error + world" where
  "SaveToFile can_open fmt_f this path format freqUnit w =
     (if m_nports this \<noteq> 2 then
        Inr (log_append (LogError ''SParameters::SaveToFile() only supports 2-port for now'') w)
      else
        (let w1 = (if format \<noteq> FORMAT_MAG_ANGLE
                   then log_append (LogWarning
                     ''Formats other than mag-angle not implemented yet (exporting as mag-angle)'') w
                   else w)
         in if \<not> can_open path then
              Inr (log_append (LogError (''Couldn't open '' @ path @ '' for writing'')) w1)
            else
              (let w2 = w1\<lparr>files := (files w1)(path \<mapsto> [])\<rparr>;
                   (freqText, freqScale) = freq_header freqUnit;
                   w3 = fprintf_line path (''# '' @ freqText @ '' S MA R 50.000'') w2
               in case params_at this (1, 1) of Inl e \<Rightarrow> Inl e | Inr s11 \<Rightarrow>
                 (case params_at this (1, 2) of Inl e \<Rightarrow> Inl e | Inr s12 \<Rightarrow>
                 (case params_at this (2, 1) of Inl e \<Rightarrow> Inl e | Inr s21 \<Rightarrow>
                 (case params_at this (2, 2) of Inl e \<Rightarrow> Inl e | Inr s22 \<Rightarrow>
                    write_rows fmt_f path freqScale s11 s12 s21 s22 0 w3))))))"


section \<open>The specification's wording\<close>




text \<open>The port pairs of an \<open>n\<close>-port model.\<close>

definition port_pairs :: "int \<Rightarrow> (int \<times> int) set" where
  "port_pairs n = {1..n} \<times> {1..n}"

text \<open>
  The nine numbers of the table row of point \<open>i\<close> as the specification lists them: the
  scaled frequency, then amplitude and phase in degrees of S11, S21, S12, S22.
\<close>

definition touchstone_fields ::
  "real \<Rightarrow> SParameterVector \<Rightarrow> SParameterVector \<Rightarrow> SParameterVector \<Rightarrow> SParameterVector \<Rightarrow>
   nat \<Rightarrow> real list" where
  "touchstone_fields scale s11 s21 s12 s22 i =
     [m_frequency (s11 ! i) * scale,
      m_amplitude (s11 ! i), m_phase (s11 ! i) * (180 / M_PI),
      m_amplitude (s21 ! i), m_phase (s21 ! i) * (180 / M_PI),
      m_amplitude (s12 ! i), m_phase (s12 ! i) * (180 / M_PI),
      m_amplitude (s22 ! i), m_phase (s22 ! i) * (180 / M_PI)]"

text \<open>Fields joined by single spaces, and a line cut at its spaces.\<close>

fun space_separated :: "string list \<Rightarrow> string" where
  "space_separated [] = []"
| "space_separated [f] = f"
| "space_separated (f # g # fs) = f @ '' '' @ space_separated (g # fs)"

fun fields_of :: "string \<Rightarrow> string list" where
  "fields_of [] = [[]]"
| "fields_of (c # cs) =
     (if c = CHR '' '' then [] # fields_of cs
      else (case fields_of cs of [] \<Rightarrow> [[c]] | f # fs \<Rightarrow> (c # f) # fs))"



text \<open>
  An instance of the \<open>fmt_f\<close> parameter for the examples: sign, integer part, a point
  and six decimals of the number rounded to the nearest millionth.
\<close>

definition digit_char :: "nat \<Rightarrow> char" where
  "digit_char d = ''0123456789'' ! (d mod 10)"

fun decimal :: "nat \<Rightarrow> string" where
  "decimal n = (if n < 10 then [digit_char n] else decimal (n div 10) @ [digit_char n])"

declare decimal.simps [simp del]

definition fixed6 :: "real \<Rightarrow> string" where
  "fixed6 x =
     (let n = nat \<lfloor>\<bar>x\<bar> * 1000000 + 1 / 2\<rfloor>;
          ds = decimal (n mod 1000000)
      in (if x < 0 then ''-'' else []) @ decimal (n div 1000000) @ ''.'' @
         replicate (6 - length ds) (CHR ''0'') @ ds)"


section \<open>Auxiliary facts\<close>



lemma point_at_in: "i < length ps \<Longrightarrow> point_at ps i = Inr (ps ! i)"
  by (simp add: point_at_def)










section \<open>Interpolation inside the sampled range\<close>





section \<open>Interpolation outside the sampled range\<close>





section \<open>The empty vector\<close>

text \<open>
  Claim C4 says that \<^verbatim>\<open>InterpolatePoint\<close> returns a point for every vector, the empty
  one included. On the empty vector the first comparison reads \<^verbatim>\<open>m_points[0]\<close>, which
  is outside the sequence, for every frequency; \<^verbatim>\<open>InterpolateMagnitude\<close> and
  \<^verbatim>\<open>InterpolateAngle\<close> inherit it. (For a non-empty vector a point is returned, see
  \<open>InterpolatePoint_nonempty\<close>.)
\<close>

theorem InterpolatePoint_empty_vector:
  "InterpolatePoint [] f = Some (Inl OutOfBounds)
   \<and> InterpolateMagnitude [] f = Some (Inl OutOfBounds)
   \<and> InterpolateAngle [] f = Some (Inl OutOfBounds)"
  by (simp add: InterpolatePoint_def InterpolateMagnitude_def InterpolateAngle_def point_at_def)


section \<open>Group delay\<close>

text \<open>
  Claim C5 says that \<^verbatim>\<open>GetGroupDelay\<close> reads inside the sequence whenever it does not
  return 0. The guard tests \<open>bin + 1\<close> against the size, the second read is at
  \<open>bin + 2\<close>: on a vector of two points and bin 0 the guard passes and the read of
  \<^verbatim>\<open>m_points[2]\<close> is outside the sequence.
\<close>

theorem GetGroupDelay_reads_past_end:
  "GetGroupDelay [a, b] 0 = Inl OutOfBounds"
  by (simp add: GetGroupDelay_def size_add_def point_at_def)


section \<open>Interpolation at a sampled frequency\<close>






section \<open>Cascading two vectors\<close>







section \<open>Equality of protocol symbols\<close>

text \<open>
  Claim C9. Two protocol symbols compare equal with \<^verbatim>\<open>operator==\<close> exactly when their
  kinds are equal and their 32-bit payloads are equal, that is, exactly when they are the
  same symbol.
\<close>

theorem SWDSymbol_eq_structural:
  fixes a b :: SWDSymbol
  shows "(SWDSymbol_eq a b \<longleftrightarrow> m_stype a = m_stype b \<and> m_data a = m_data b)
       \<and> (SWDSymbol_eq a b \<longleftrightarrow> a = b)"
  by (cases a, cases b) (simp add: SWDSymbol_eq_def)

theorem SWDSymbol_eq_structural_witness:
  "SWDSymbol_eq \<lparr>m_stype = TYPE_ACK, m_data = 1\<rparr> \<lparr>m_stype = TYPE_ACK, m_data = 1\<rparr>
   \<and> \<not> SWDSymbol_eq \<lparr>m_stype = TYPE_ACK, m_data = 1\<rparr> \<lparr>m_stype = TYPE_ACK, m_data = 2\<rparr>
   \<and> \<not> SWDSymbol_eq \<lparr>m_stype = TYPE_ACK, m_data = 1\<rparr> \<lparr>m_stype = TYPE_DATA, m_data = 1\<rparr>"
  using SWDSymbol_eq_structural[of "\<lparr>m_stype = TYPE_ACK, m_data = 1\<rparr>" "\<lparr>m_stype = TYPE_ACK, m_data = 1\<rparr>"]
    SWDSymbol_eq_structural[of "\<lparr>m_stype = TYPE_ACK, m_data = 1\<rparr>" "\<lparr>m_stype = TYPE_ACK, m_data = 2\<rparr>"]
    SWDSymbol_eq_structural[of "\<lparr>m_stype = TYPE_ACK, m_data = 1\<rparr>" "\<lparr>m_stype = TYPE_DATA, m_data = 1\<rparr>"]
  by simp


section \<open>Allocation of a model\<close>

lemma fold_inner_alloc:
  "fold (\<lambda>s m'. m'((d, s) \<mapsto> [])) ss m =
     (\<lambda>k. if fst k = d \<and> snd k \<in> set ss then Some [] else m k)"
proof (induction ss arbitrary: m)
  case Nil
  then show ?case by simp
next
  case (Cons s ss)
  show ?case
    unfolding fold_simps Cons.IH by (rule ext) auto
qed

lemma fold_outer_alloc:
  "fold (\<lambda>d m. fold (\<lambda>s m'. m'((d, s) \<mapsto> ([]::SParameterVector))) ss m) ds m =
     (\<lambda>k. if fst k \<in> set ds \<and> snd k \<in> set ss then Some [] else m k)"
  by (induction ds arbitrary: m) (auto simp: fold_inner_alloc fun_eq_iff)

lemma card_port_pairs: "card (port_pairs n) = nat n * nat n"
  by (simp add: port_pairs_def card_cartesian_product)

lemma Allocate_params:
  "m_params (Allocate n this) k = (if k \<in> port_pairs n then Some [] else m_params this k)"
  by (cases k) (simp add: Allocate_def fold_outer_alloc port_pairs_def)

text \<open>
  Claim C8, as amended. In every model state and for every \<open>n\<close>, after \<^verbatim>\<open>Allocate(n)\<close>
  every port pair \<open>(d, s)\<close> with \<open>d\<close> and \<open>s\<close> in \<open>[1, n]\<close> maps to a fresh empty vector
  (what it mapped to before is discarded), every other entry is as it was, and the
  port-count field equals \<open>n\<close>. When the model had no entry outside \<open>[1, n] \<times> [1, n]\<close>
  before the call, the mapping afterwards has exactly these pairs as keys, \<open>n\<^sup>2\<close>
  entries for \<open>n \<ge> 0\<close> and none for \<open>n < 0\<close>; so it is after \<^verbatim>\<open>Clear\<close> followed by
  \<^verbatim>\<open>Allocate(n)\<close>.
\<close>

theorem Allocate_result:
  "(\<forall>k. m_params (Allocate n this) k = (if k \<in> port_pairs n then Some [] else m_params this k))
   \<and> m_nports (Allocate n this) = n
   \<and> (dom (m_params this) \<subseteq> port_pairs n \<longrightarrow>
        dom (m_params (Allocate n this)) = port_pairs n
        \<and> card (dom (m_params (Allocate n this))) = nat n * nat n)
   \<and> dom (m_params (Allocate n (Clear this))) = port_pairs n"
proof -
  have d: "dom (m_params (Allocate n m)) = port_pairs n" if "dom (m_params m) \<subseteq> port_pairs n" for m
    using that by (auto simp: Allocate_params dom_def split: if_splits)
  have "dom (m_params (Clear this)) \<subseteq> port_pairs n"
    by (simp add: Clear_def)
  then have "dom (m_params (Allocate n (Clear this))) = port_pairs n"
    by (rule d)
  moreover have "m_nports (Allocate n this) = n"
    by (simp add: Allocate_def)
  ultimately show ?thesis
    using d[of this] by (simp add: Allocate_params card_port_pairs)
qed

theorem Allocate_result_witness:
  "dom (m_params \<lparr>m_params = Map.empty, m_nports = 0\<rparr>) \<subseteq> port_pairs 2
   \<and> dom (m_params (Allocate 2 \<lparr>m_params = Map.empty, m_nports = 0\<rparr>)) = {(1, 1), (1, 2), (2, 1), (2, 2)}
   \<and> card (dom (m_params (Allocate 2 \<lparr>m_params = Map.empty, m_nports = 0\<rparr>))) = 4
   \<and> m_params (Allocate 2 \<lparr>m_params = Map.empty, m_nports = 0\<rparr>) (2, 1) = Some []
   \<and> m_nports (Allocate 2 \<lparr>m_params = Map.empty, m_nports = 0\<rparr>) = 2"
proof -
  have s: "{1..2::int} = {1, 2}" by auto
  have pp: "port_pairs 2 = {(1, 1), (1, 2), (2, 1), (2, 2)}"
    unfolding port_pairs_def s by auto
  show ?thesis
    using Allocate_result[of 2 "\<lparr>m_params = Map.empty, m_nports = 0\<rparr>"]
    by (simp add: pp)
qed

theorem Allocate_result_counterexample:
  "m_params (Allocate 1 (Allocate 2 \<lparr>m_params = Map.empty, m_nports = 0\<rparr>)) (2, 2) = Some []
   \<and> (2, 2) \<notin> port_pairs 1
   \<and> m_nports (Allocate 1 (Allocate 2 \<lparr>m_params = Map.empty, m_nports = 0\<rparr>)) = 1"
  by (simp add: Allocate_def port_pairs_def upto.simps)


section \<open>Writing the Touchstone file\<close>

lemma digit_char_no_space: "digit_char d \<noteq> CHR '' ''"
proof -
  have "digit_char d \<in> set ''0123456789''"
    unfolding digit_char_def by (rule nth_mem) simp
  then show ?thesis by auto
qed

lemma decimal_no_space: "CHR '' '' \<notin> set (decimal n)"
proof (induction n rule: decimal.induct)
  case (1 n)
  show ?case
    using 1 digit_char_no_space[of n] by (subst decimal.simps) auto
qed

lemma fixed6_no_space: "CHR '' '' \<notin> set (fixed6 x)"
  using decimal_no_space by (auto simp: fixed6_def Let_def)

lemma replicate_numeral_unfold: "replicate (numeral k) x = x # replicate (pred_numeral k) x"
  by (simp add: numeral_eq_Suc)

lemma fixed6_examples:
  "fixed6 1000 = ''1000.000000''" "fixed6 (1 / 2) = ''0.500000''" "fixed6 0 = ''0.000000''"
  "fixed6 (1 / 100) = ''0.010000''" "fixed6 90 = ''90.000000''" "fixed6 (- 45) = ''-45.000000''"
  "fixed6 (3 / 4) = ''0.750000''"
  by (simp_all add: fixed6_def Let_def) (simp_all add: decimal.simps digit_char_def replicate_numeral_unfold)

lemma fields_of_single: "CHR '' '' \<notin> set f \<Longrightarrow> fields_of f = [f]"
  by (induction f) auto

lemma fields_of_cut: "CHR '' '' \<notin> set f \<Longrightarrow> fields_of (f @ CHR '' '' # rest) = f # fields_of rest"
  by (induction f) auto

lemma fields_of_space_separated:
  assumes "fs \<noteq> []" "\<forall>f \<in> set fs. CHR '' '' \<notin> set f"
  shows "fields_of (space_separated fs) = fs"
  using assms
  by (induction fs rule: space_separated.induct) (simp_all add: fields_of_single fields_of_cut)

lemma format_row_fields:
  "format_row fmt_f v1 v2 v3 v4 v5 v6 v7 v8 v9 =
     space_separated (map fmt_f [v1, v2, v3, v4, v5, v6, v7, v8, v9])"
  by (simp add: format_row_def)

lemma write_rows_result:
  assumes "length s11 \<le> length s21" "length s11 \<le> length s12" "length s11 \<le> length s22"
    and "i \<le> length s11" "files w path = Some ls"
  shows "write_rows fmt_f path scale s11 s12 s21 s22 i w =
           Inr (w\<lparr>files := (files w)(path \<mapsto> ls @
                  map (\<lambda>i. space_separated (map fmt_f (touchstone_fields scale s11 s21 s12 s22 i)))
                    [i..<length s11])\<rparr>)"
  using assms(4,5)
proof (induction "length s11 - i" arbitrary: i w ls)
  case 0
  then have "i = length s11" by simp
  moreover have "(files w)(path \<mapsto> ls) = files w"
    using "0.prems"(2) by (simp add: map_upd_triv)
  ultimately show ?case
    by (subst write_rows.simps) simp
next
  case (Suc n)
  then have lt: "i < length s11" by simp
  let ?line = "space_separated (map fmt_f (touchstone_fields scale s11 s21 s12 s22 i))"
  let ?w = "fprintf_line path ?line w"
  have step: "write_rows fmt_f path scale s11 s12 s21 s22 i w =
              write_rows fmt_f path scale s11 s12 s21 s22 (i + 1) ?w"
    using lt assms(1-3)
    by (subst write_rows.simps)
       (simp add: point_at_in Let_def format_row_fields touchstone_fields_def)
  have f: "files ?w path = Some (ls @ [?line])"
    using Suc.prems(2) by (simp add: fprintf_line_def)
  have "n = length s11 - (i + 1)" "i + 1 \<le> length s11"
    using Suc.hyps(2) lt by simp_all
  from Suc.hyps(1)[OF this f]
  have "write_rows fmt_f path scale s11 s12 s21 s22 (i + 1) ?w =
          Inr (?w\<lparr>files := (files ?w)(path \<mapsto> (ls @ [?line]) @
                  map (\<lambda>i. space_separated (map fmt_f (touchstone_fields scale s11 s21 s12 s22 i)))
                    [i + 1..<length s11])\<rparr>)" .
  then show ?case
    unfolding step using lt by (simp add: fprintf_line_def upt_conv_Cons)
qed



lemma freq_header_table:
  "freq_header u =
     (if u = FREQ_HZ then (''Hz'', 1)
      else if u = FREQ_KHZ then (''kHz'', 1 / 1000)
      else if u = FREQ_MHZ then (''MHz'', 1 / 1000000)
      else (''GHz'', 1 / 1000000000))"
  by (cases u) simp_all

text \<open>
  Claim C7, as amended. For a 2-port model (port count 2, the four port pairs present)
  whose S21, S12 and S22 vectors have at least as many points as S11, and a path that can
  be opened: \<^verbatim>\<open>SaveToFile\<close> leaves at the path exactly one header line
  \<^verbatim>\<open># <unit> S MA R 50.000\<close>, with unit and scale factor Hz and 1, kHz and \<open>10\<^sup>-\<^sup>3\<close>,
  MHz and \<open>10\<^sup>-\<^sup>6\<close>, or GHz and \<open>10\<^sup>-\<^sup>9\<close> (GHz for every other unit value), followed by
  one line per point of S11. Each line is nine numbers printed with \<^verbatim>\<open>%f\<close> and joined by
  single spaces: the scaled frequency, then amplitude and phase in degrees of S11, S21,
  S12, S22 in this order; when \<^verbatim>\<open>%f\<close> prints no space, cutting the line at its spaces
  gives back these nine fields. Every other file is untouched.
\<close>

theorem SaveToFile_contents:
  assumes "m_nports this = 2"
    and "m_params this (1, 1) = Some s11" and "m_params this (1, 2) = Some s12"
    and "m_params this (2, 1) = Some s21" and "m_params this (2, 2) = Some s22"
    and "length s11 \<le> length s21" and "length s11 \<le> length s12" and "length s11 \<le> length s22"
    and "can_open path"
  shows "\<exists>unit scale r.
           (unit, scale) =
             (if freqUnit = FREQ_HZ then (''Hz'', 1)
              else if freqUnit = FREQ_KHZ then (''kHz'', 1 / 1000)
              else if freqUnit = FREQ_MHZ then (''MHz'', 1 / 1000000)
              else (''GHz'', 1 / 1000000000))
         \<and> SaveToFile can_open fmt_f this path format freqUnit w = Inr r
         \<and> files r = (files w)(path \<mapsto>
               (''# '' @ unit @ '' S MA R 50.000'') #
               map (\<lambda>i. space_separated (map fmt_f (touchstone_fields scale s11 s21 s12 s22 i)))
                 [0..<length s11])
         \<and> (\<forall>i<length s11.
               length (touchstone_fields scale s11 s21 s12 s22 i) = 9
             \<and> ((\<forall>x. CHR '' '' \<notin> set (fmt_f x)) \<longrightarrow>
                  fields_of (space_separated (map fmt_f (touchstone_fields scale s11 s21 s12 s22 i)))
                    = map fmt_f (touchstone_fields scale s11 s21 s12 s22 i)))"
proof -
  obtain unit scale where fh: "freq_header freqUnit = (unit, scale)"
    by (cases "freq_header freqUnit")
  let ?w1 = "if format \<noteq> FORMAT_MAG_ANGLE
             then log_append (LogWarning
               ''Formats other than mag-angle not implemented yet (exporting as mag-angle)'') w
             else w"
  let ?header = "''# '' @ unit @ '' S MA R 50.000''"
  let ?w3 = "fprintf_line path ?header (?w1\<lparr>files := (files ?w1)(path \<mapsto> [])\<rparr>)"
  let ?rows = "map (\<lambda>i. space_separated (map fmt_f (touchstone_fields scale s11 s21 s12 s22 i)))
                 [0..<length s11]"
  have f3: "files ?w3 path = Some [?header]"
    by (simp add: fprintf_line_def)
  have "SaveToFile can_open fmt_f this path format freqUnit w =
          write_rows fmt_f path scale s11 s12 s21 s22 0 ?w3"
    using assms(1-5,9) by (simp add: SaveToFile_def params_at_def fh Let_def)
  also have "\<dots> = Inr (?w3\<lparr>files := (files ?w3)(path \<mapsto> [?header] @ ?rows)\<rparr>)"
    using write_rows_result[OF assms(6-8) _ f3, of 0 fmt_f scale] by simp
  finally have r: "SaveToFile can_open fmt_f this path format freqUnit w =
      Inr (?w3\<lparr>files := (files ?w3)(path \<mapsto> [?header] @ ?rows)\<rparr>)" .
  have fl: "files (?w3\<lparr>files := (files ?w3)(path \<mapsto> [?header] @ ?rows)\<rparr>) =
              (files w)(path \<mapsto> ?header # ?rows)"
    by (simp add: fprintf_line_def log_append_def)
  have fields: "length (touchstone_fields scale s11 s21 s12 s22 i) = 9
      \<and> ((\<forall>x. CHR '' '' \<notin> set (fmt_f x)) \<longrightarrow>
            fields_of (space_separated (map fmt_f (touchstone_fields scale s11 s21 s12 s22 i)))
              = map fmt_f (touchstone_fields scale s11 s21 s12 s22 i))" for i
  proof (intro conjI impI)
    show "length (touchstone_fields scale s11 s21 s12 s22 i) = 9"
      by (simp add: touchstone_fields_def)
    assume "\<forall>x. CHR '' '' \<notin> set (fmt_f x)"
    then show "fields_of (space_separated (map fmt_f (touchstone_fields scale s11 s21 s12 s22 i)))
              = map fmt_f (touchstone_fields scale s11 s21 s12 s22 i)"
      by (intro fields_of_space_separated) (auto simp: touchstone_fields_def)
  qed
  have "(unit, scale) =
             (if freqUnit = FREQ_HZ then (''Hz'', 1)
              else if freqUnit = FREQ_KHZ then (''kHz'', 1 / 1000)
              else if freqUnit = FREQ_MHZ then (''MHz'', 1 / 1000000)
              else (''GHz'', 1 / 1000000000))"
    using fh freq_header_table[of freqUnit] by simp
  with r fl fields show ?thesis by blast
qed

theorem SaveToFile_contents_witness:
  "m_nports \<lparr>m_params =
       [(1, 1) \<mapsto> [\<lparr>m_frequency = 1000000000, m_amplitude = 1 / 2, m_phase = 0\<rparr>],
        (1, 2) \<mapsto> [\<lparr>m_frequency = 1000000000, m_amplitude = 1 / 100, m_phase = M_PI / 2\<rparr>],
        (2, 1) \<mapsto> [\<lparr>m_frequency = 1000000000, m_amplitude = 3 / 4, m_phase = - (M_PI / 4)\<rparr>],
        (2, 2) \<mapsto> [\<lparr>m_frequency = 1000000000, m_amplitude = 1 / 2, m_phase = 0\<rparr>]],
      m_nports = 2\<rparr> = 2
   \<and> (\<lambda>p. True) ''out.s2p''
   \<and> (\<forall>x. CHR '' '' \<notin> set (fixed6 x))
   \<and> (\<exists>r. SaveToFile (\<lambda>p. True) fixed6
        \<lparr>m_params =
           [(1, 1) \<mapsto> [\<lparr>m_frequency = 1000000000, m_amplitude = 1 / 2, m_phase = 0\<rparr>],
            (1, 2) \<mapsto> [\<lparr>m_frequency = 1000000000, m_amplitude = 1 / 100, m_phase = M_PI / 2\<rparr>],
            (2, 1) \<mapsto> [\<lparr>m_frequency = 1000000000, m_amplitude = 3 / 4, m_phase = - (M_PI / 4)\<rparr>],
            (2, 2) \<mapsto> [\<lparr>m_frequency = 1000000000, m_amplitude = 1 / 2, m_phase = 0\<rparr>]],
          m_nports = 2\<rparr>
        ''out.s2p'' FORMAT_MAG_ANGLE FREQ_MHZ \<lparr>files = Map.empty, log = []\<rparr> = Inr r
      \<and> files r ''out.s2p'' =
          Some [''# MHz S MA R 50.000'',
                ''1000.000000 0.500000 0.000000 0.750000 -45.000000 0.010000 90.000000 0.500000 0.000000'']
      \<and> fields_of ''1000.000000 0.500000 0.000000 0.750000 -45.000000 0.010000 90.000000 0.500000 0.000000''
          = [''1000.000000'', ''0.500000'', ''0.000000'', ''0.750000'', ''-45.000000'', ''0.010000'',
             ''90.000000'', ''0.500000'', ''0.000000''])"
proof -
  let ?s11 = "[\<lparr>m_frequency = 1000000000, m_amplitude = 1 / 2, m_phase = 0\<rparr>]"
  let ?s12 = "[\<lparr>m_frequency = 1000000000, m_amplitude = 1 / 100, m_phase = M_PI / 2\<rparr>]"
  let ?s21 = "[\<lparr>m_frequency = 1000000000, m_amplitude = 3 / 4, m_phase = - (M_PI / 4)\<rparr>]"
  let ?s22 = "[\<lparr>m_frequency = 1000000000, m_amplitude = 1 / 2, m_phase = 0\<rparr>]"
  let ?model = "\<lparr>m_params = [(1, 1) \<mapsto> ?s11, (1, 2) \<mapsto> ?s12, (2, 1) \<mapsto> ?s21, (2, 2) \<mapsto> ?s22],
                m_nports = 2\<rparr>"
  let ?w = "\<lparr>files = Map.empty, log = []\<rparr>"
  have h: "m_nports ?model = 2"
    "m_params ?model (1, 1) = Some ?s11" "m_params ?model (1, 2) = Some ?s12"
    "m_params ?model (2, 1) = Some ?s21" "m_params ?model (2, 2) = Some ?s22"
    "length ?s11 \<le> length ?s21" "length ?s11 \<le> length ?s12" "length ?s11 \<le> length ?s22"
    "(\<lambda>p. True) ''out.s2p''"
    by simp_all
  have ns: "\<forall>x. CHR '' '' \<notin> set (fixed6 x)"
    using fixed6_no_space by blast
  have v: "map fixed6 (touchstone_fields (1 / 1000000) ?s11 ?s21 ?s12 ?s22 0) =
      [''1000.000000'', ''0.500000'', ''0.000000'', ''0.750000'', ''-45.000000'', ''0.010000'',
       ''90.000000'', ''0.500000'', ''0.000000'']"
    by (simp add: touchstone_fields_def M_PI_def fixed6_examples)
  from SaveToFile_contents[OF h, where freqUnit = FREQ_MHZ and fmt_f = fixed6
      and format = FORMAT_MAG_ANGLE and w = ?w]
  obtain unit scale r where r:
    "(unit, scale) =
       (if FREQ_MHZ = FREQ_HZ then (''Hz'', 1)
        else if FREQ_MHZ = FREQ_KHZ then (''kHz'', 1 / 1000)
        else if FREQ_MHZ = FREQ_MHZ then (''MHz'', 1 / 1000000)
        else (''GHz'', 1 / 1000000000))"
    "SaveToFile (\<lambda>p. True) fixed6 ?model ''out.s2p'' FORMAT_MAG_ANGLE FREQ_MHZ ?w = Inr r"
    "files r = (files ?w)(''out.s2p'' \<mapsto>
               (''# '' @ unit @ '' S MA R 50.000'') #
               map (\<lambda>i. space_separated (map fixed6 (touchstone_fields scale ?s11 ?s21 ?s12 ?s22 i)))
                 [0..<length ?s11])"
    "\<forall>i<length ?s11.
               length (touchstone_fields scale ?s11 ?s21 ?s12 ?s22 i) = 9
             \<and> ((\<forall>x. CHR '' '' \<notin> set (fixed6 x)) \<longrightarrow>
                  fields_of (space_separated (map fixed6 (touchstone_fields scale ?s11 ?s21 ?s12 ?s22 i)))
                    = map fixed6 (touchstone_fields scale ?s11 ?s21 ?s12 ?s22 i))"
    by blast
  from r(1) have us: "unit = ''MHz''" "scale = 1 / 1000000" by simp_all
  have "files r ''out.s2p'' =
          Some [''# MHz S MA R 50.000'',
                ''1000.000000 0.500000 0.000000 0.750000 -45.000000 0.010000 90.000000 0.500000 0.000000'']"
    unfolding r(3) us by (simp add: v)
  moreover have "fields_of ''1000.000000 0.500000 0.000000 0.750000 -45.000000 0.010000 90.000000 0.500000 0.000000''
          = [''1000.000000'', ''0.500000'', ''0.000000'', ''0.750000'', ''-45.000000'', ''0.010000'',
             ''90.000000'', ''0.500000'', ''0.000000'']"
    using r(4) ns unfolding us by (simp add: v)
  ultimately show ?thesis using h(1,9) ns r(2) by blast
qed

theorem SaveToFile_contents_counterexample:
  "SaveToFile (\<lambda>p. True) fixed6
     \<lparr>m_params = [(1, 1) \<mapsto> [\<lparr>m_frequency = 1000000000, m_amplitude = 1 / 2, m_phase = 0\<rparr>],
                  (1, 2) \<mapsto> [], (2, 1) \<mapsto> [], (2, 2) \<mapsto> []],
      m_nports = 2\<rparr>
     ''out.s2p'' FORMAT_MAG_ANGLE FREQ_GHZ \<lparr>files = Map.empty, log = []\<rparr>
   = Inl OutOfBounds"
proof -
  have "write_rows fmt_f path scale [p] [] [] [] 0 w = Inl OutOfBounds" for fmt_f path scale p w
    by (subst write_rows.simps) (simp add: point_at_def)
  then show ?thesis
    by (simp add: SaveToFile_def params_at_def)
qed


section \<open>Errors and warnings of the export\<close>



end
